theory Spec2Isabelle
  imports Main "HOL-Library.Word" "HOL-Library.AList"
begin

section \<open>Data model\<close>

text \<open>
  A shallow embedding of the GATT object model (\<^verbatim>\<open>gatt.ts\<close>) and of the Bluetooth hub
  (\<^verbatim>\<open>bluetooth.ts\<close>) of the WebBluetooth bindings. Byte buffers are lists of 8-bit words.
  A caller-supplied \<^verbatim>\<open>ArrayBuffer | ArrayBufferView\<close> keeps the distinction the code tests
  with \<^verbatim>\<open>isView\<close>: a view carries its whole underlying buffer together with its byte offset
  and byte length.
\<close>

type_synonym bytes = "8 word list"

datatype buffer_source =
    ArrayBuffer bytes
  | ArrayBufferView bytes nat nat

text \<open>
  \<^verbatim>\<open>isView\<close> is imported from \<^verbatim>\<open>common.ts\<close>; it is the type test whose true branch
  reads \<^verbatim>\<open>value.buffer\<close>. \<open>buffer_of\<close> is the expression
  \<^verbatim>\<open>isView(value) ? value.buffer : value\<close>, read as the bytes of the resulting buffer.
\<close>

fun isView :: "buffer_source \<Rightarrow> bool" where
  "isView (ArrayBuffer _) = False"
| "isView (ArrayBufferView _ _ _) = True"

fun buffer_of :: "buffer_source \<Rightarrow> bytes" where
  "buffer_of (ArrayBuffer b) = b"
| "buffer_of (ArrayBufferView b _ _) = b"

text \<open>Every \<^verbatim>\<open>throw\<close> of the modelled code is a value of this type.\<close>

datatype error =
    NotConnected              \<comment> \<open>\<^verbatim>\<open>Error("Device not connected")\<close>\<close>
  | AlreadyConnected          \<comment> \<open>\<^verbatim>\<open>Error("Device already connected")\<close>\<close>
  | ConnectionRefused         \<comment> \<open>\<^verbatim>\<open>Error("Device refused to connect")\<close>\<close>
  | NoServiceSpecified        \<comment> \<open>\<^verbatim>\<open>TypeError("No service specified")\<close>\<close>
  | ServiceNotFound           \<comment> \<open>\<^verbatim>\<open>Error("Service not found")\<close>\<close>
  | NoCharacteristicSpecified \<comment> \<open>\<^verbatim>\<open>TypeError("No characteristic specified")\<close>\<close>
  | CharacteristicNotFound    \<comment> \<open>\<^verbatim>\<open>Error("Characteristic not found")\<close>\<close>
  | NoDescriptorSpecified     \<comment> \<open>\<^verbatim>\<open>TypeError("No descriptor specified")\<close>\<close>
  | DescriptorNotFound        \<comment> \<open>\<^verbatim>\<open>Error("Descriptor not found")\<close> and the \<^verbatim>\<open>getDescriptors\<close> variant\<close>
  | CharacteristicInvalid     \<comment> \<open>\<^verbatim>\<open>Error("Characteristic is no longer valid")\<close>\<close>
  | DescriptorInvalid         \<comment> \<open>\<^verbatim>\<open>Error("Descriptor is no longer valid")\<close>\<close>
  | WriteCommandFailed        \<comment> \<open>\<^verbatim>\<open>Error("Error while writing a command to a characteristic")\<close>\<close>
  | WriteRequestFailed        \<comment> \<open>\<^verbatim>\<open>Error("Error while writing a request to a characteristic")\<close>\<close>
  | FilterRequired            \<comment> \<open>\<^verbatim>\<open>TypeError("filter or filters must be given")\<close>\<close>
  | Canceled                  \<comment> \<open>\<^verbatim>\<open>DOMException("Operation was canceled")\<close>\<close>
  | NoDevicesFound            \<comment> \<open>\<^verbatim>\<open>DOMException("... no devices found")\<close>\<close>
  | ServicesFilterUnsupported \<comment> \<open>\<^verbatim>\<open>Error("Filtering by services is not supported yet")\<close>\<close>
  | RangeError                \<comment> \<open>raised by \<^verbatim>\<open>DataView.getUint8\<close> past the end of the view\<close>
  | DataViewTypeError         \<comment> \<open>\<^verbatim>\<open>TypeError\<close> of \<^verbatim>\<open>new DataView\<close> on a value that is no \<^verbatim>\<open>ArrayBuffer\<close>\<close>

text \<open>
  \<^verbatim>\<open>new DataView(x)\<close> accepts an \<^verbatim>\<open>ArrayBuffer\<close> and gives the view of its bytes; on
  any other value, a typed array included, it raises a \<^verbatim>\<open>TypeError\<close>. A
  \<^verbatim>\<open>Uint8Array\<close> that the binding allocates for an answer is a view of a buffer of its
  own, from offset 0 and of the buffer's length.
\<close>

fun DataView :: "buffer_source \<Rightarrow> error + bytes" where
  "DataView (ArrayBuffer b) = Inr b"
| "DataView (ArrayBufferView _ _ _) = Inl DataViewTypeError"

definition Uint8Array :: "bytes \<Rightarrow> buffer_source" where
  "Uint8Array data = ArrayBufferView data 0 (length data)"

subsection \<open>The native binding\<close>

text \<open>
  The objects the SimpleBLE binding hands out (\<^verbatim>\<open>Characteristic\<close> and \<^verbatim>\<open>Service\<close> of the
  binding's declarations), the calls the GATT layer makes into the binding, and a binding
  given by what each call answers. \<^verbatim>\<open>undefined\<close> answers are \<open>None\<close>. The two
  read calls are declared to answer \<^verbatim>\<open>Uint8Array | undefined\<close>: \<open>Some data\<close> is a
  \<^verbatim>\<open>Uint8Array\<close> with the bytes \<open>data\<close>.
\<close>

record native_characteristic =
  nc_uuid :: string
  nc_descriptors :: "string list"

record native_service =
  ns_uuid :: string
  ns_characteristics :: "native_characteristic list"

datatype call =
    PeripheralConnect
  | PeripheralDisconnect
  | SetCallbackOnDisconnected
  | ServicesCount
  | ServicesGet nat
  | PeripheralRead string string
  | WriteCommand string string bytes
  | WriteRequest string string bytes
  | PeripheralNotify string string
  | PeripheralUnsubscribe string string
  | ReadDescriptor string string string
  | WriteDescriptor string string string bytes

record bindings =
  simpleble_peripheral_connect :: bool
  simpleble_peripheral_services_count :: nat
  simpleble_peripheral_services_get :: "nat \<Rightarrow> native_service"
  simpleble_peripheral_read :: "string \<Rightarrow> string \<Rightarrow> bytes option"
  simpleble_peripheral_write_command :: "string \<Rightarrow> string \<Rightarrow> bytes \<Rightarrow> bool"
  simpleble_peripheral_write_request :: "string \<Rightarrow> string \<Rightarrow> bytes \<Rightarrow> bool"
  simpleble_peripheral_read_descriptor :: "string \<Rightarrow> string \<Rightarrow> string \<Rightarrow> bytes option"
  simpleble_peripheral_write_descriptor :: "string \<Rightarrow> string \<Rightarrow> string \<Rightarrow> bytes \<Rightarrow> bool"

subsection \<open>Events\<close>

text \<open>
  \<^verbatim>\<open>dispatchEvent\<close> is recorded in a log: the object the event is dispatched on and the
  event's type. The targets are the objects of one chain: a characteristic (named by its
  service's and its own UUID), its service, the device and the Bluetooth hub.
\<close>

datatype target =
    OnCharacteristic string string
  | OnService string
  | OnDevice
  | OnBluetooth

type_synonym event = "target \<times> string"

subsection \<open>GATT objects\<close>

text \<open>
  A descriptor and a characteristic hold a reference to their service, of which the code
  reads the (read-only) UUID only; the model stores that UUID. The connection flag that
  every operation reads through \<^verbatim>\<open>service.device.gatt.connected\<close> lives in the state of
  the device's GATT server below.
\<close>

record gatt_descriptor =
  d_service_uuid :: string
  d_char_uuid :: string
  d_uuid :: string
  d_value :: "bytes option"

record gatt_characteristic =
  c_service_uuid :: string
  c_characteristic :: native_characteristic
  c_uuid :: string
  c_value :: "bytes option"
  c_descriptors :: "gatt_descriptor list"

record gatt_service =
  s_service :: native_service
  s_uuid :: string
  s_chars :: "gatt_characteristic list"

text \<open>
  The state of one device: the fields \<^verbatim>\<open>_connected\<close> and \<^verbatim>\<open>_services\<close> of its
  \<^verbatim>\<open>BluetoothRemoteGATTServer\<close>, whether the disconnection callback is registered with the
  binding, the log of binding calls and the log of dispatched events.
\<close>

record world =
  connected :: bool
  services :: "gatt_service list"
  on_disconnected :: bool
  calls :: "call list"
  events :: "event list"

definition native_call :: "call \<Rightarrow> world \<Rightarrow> world" where
  "native_call c w = w\<lparr>calls := calls w @ [c]\<rparr>"

definition dispatchEvent :: "target \<Rightarrow> string \<Rightarrow> world \<Rightarrow> world" where
  "dispatchEvent t ty w = w\<lparr>events := events w @ [(t, ty)]\<rparr>"

text \<open>
  A UUID argument is a number or a string (\<^verbatim>\<open>BluetoothServiceUUID\<close>), and optional where
  the signature says so. \<^verbatim>\<open>!uuid\<close> holds of \<^verbatim>\<open>undefined\<close>, of \<^verbatim>\<open>0\<close> and of the empty
  string: \<open>truthy uuid\<close> is the argument when \<^verbatim>\<open>!uuid\<close> is false, \<open>None\<close> otherwise.
  Every JavaScript array, empty or not, is truthy.
\<close>

datatype uuid_arg = UuidNumber nat | UuidString string

fun truthy :: "uuid_arg option \<Rightarrow> uuid_arg option" where
  "truthy None = None"
| "truthy (Some (UuidNumber n)) = (if n = 0 then None else Some (UuidNumber n))"
| "truthy (Some (UuidString s)) = (if s = [] then None else Some (UuidString s))"

definition array_truthy :: "'a list \<Rightarrow> bool" where
  "array_truthy xs = True"

section \<open>Characteristic\<close>

record characteristic_properties =
  authenticatedSignedWrites :: bool
  broadcast :: bool
  indicate :: bool
  notify :: bool
  read :: bool
  reliableWrite :: bool
  write' :: bool
  writeWithoutResponse :: bool
  writableAuxiliaries :: bool

definition properties :: "gatt_characteristic \<Rightarrow> characteristic_properties" where
  "properties c =
     \<lparr> authenticatedSignedWrites = False,
       broadcast = False,
       indicate = True,
       notify = True,
       read = True,
       reliableWrite = True,
       write' = True,
       writeWithoutResponse = True,
       writableAuxiliaries = False \<rparr>"

text \<open>
  \<^verbatim>\<open>_setValue(value, emit)\<close>: store the value; with \<^verbatim>\<open>emit\<close>, dispatch on four objects.
  \<^verbatim>\<open>readValue\<close> builds its view from the binding's answer itself. The writes build it
  from the \<^verbatim>\<open>ArrayBuffer\<close> \<open>buffer_of v\<close>, and the notification callback from
  \<^verbatim>\<open>data.buffer\<close>, the buffer of the delivered \<^verbatim>\<open>Uint8Array\<close>: there
  \<^verbatim>\<open>new DataView\<close> is the view of the buffer's bytes.
\<close>

definition setValue ::
  "bytes option \<Rightarrow> bool \<Rightarrow> gatt_characteristic \<Rightarrow> world \<Rightarrow> gatt_characteristic \<times> world" where
  "setValue v emit c w =
     (let c' = c\<lparr>c_value := v\<rparr> in
      if emit then
        (c',
         dispatchEvent OnBluetooth ''characteristicvaluechanged''
           (dispatchEvent OnDevice ''characteristicvaluechanged''
             (dispatchEvent (OnService (c_service_uuid c)) ''characteristicvaluechanged''
               (dispatchEvent (OnCharacteristic (c_service_uuid c) (c_uuid c))
                  ''characteristicvaluechanged'' w))))
      else (c', w))"

definition readValue ::
  "bindings \<Rightarrow> gatt_characteristic \<Rightarrow> world \<Rightarrow> (error + bytes) \<times> gatt_characteristic \<times> world" where
  "readValue b c w =
     (let w1 = native_call (PeripheralRead (c_service_uuid c) (c_uuid c)) w in
      case simpleble_peripheral_read b (c_service_uuid c) (c_uuid c) of
        None \<Rightarrow> (Inl CharacteristicInvalid, c, w1)
      | Some buffer \<Rightarrow>
          (case DataView (Uint8Array buffer) of
             Inl e \<Rightarrow> (Inl e, c, w1)
           | Inr view \<Rightarrow>
               (let (c', w2) = setValue (Some view) True c w1 in (Inr view, c', w2))))"

definition writeValueWithResponse ::
  "bindings \<Rightarrow> buffer_source \<Rightarrow> gatt_characteristic \<Rightarrow> world
     \<Rightarrow> (error + unit) \<times> gatt_characteristic \<times> world" where
  "writeValueWithResponse b v c w =
     (let data = buffer_of v;
          w1 = native_call (WriteCommand (c_service_uuid c) (c_uuid c) data) w in
      if \<not> simpleble_peripheral_write_command b (c_service_uuid c) (c_uuid c) data
      then (Inl WriteCommandFailed, c, w1)
      else (let (c', w2) = setValue (Some data) False c w1 in (Inr (), c', w2)))"

definition writeValue ::
  "bindings \<Rightarrow> buffer_source \<Rightarrow> gatt_characteristic \<Rightarrow> world
     \<Rightarrow> (error + unit) \<times> gatt_characteristic \<times> world" where
  "writeValue b v c w = writeValueWithResponse b v c w"

definition writeValueWithoutResponse ::
  "bindings \<Rightarrow> buffer_source \<Rightarrow> gatt_characteristic \<Rightarrow> world
     \<Rightarrow> (error + unit) \<times> gatt_characteristic \<times> world" where
  "writeValueWithoutResponse b v c w =
     (let data = buffer_of v;
          w1 = native_call (WriteRequest (c_service_uuid c) (c_uuid c) data) w in
      if \<not> simpleble_peripheral_write_request b (c_service_uuid c) (c_uuid c) data
      then (Inl WriteRequestFailed, c, w1)
      else (let (c', w2) = setValue (Some data) False c w1 in (Inr (), c', w2)))"

text \<open>
  \<^verbatim>\<open>startNotifications\<close> hands the binding a callback; \<open>notification\<close> is that callback's
  body, run by the native layer on each delivery of \<open>data\<close>.
\<close>

definition startNotifications ::
  "bindings \<Rightarrow> gatt_characteristic \<Rightarrow> world \<Rightarrow> (error + unit) \<times> gatt_characteristic \<times> world" where
  "startNotifications b c w =
     (if \<not> connected w then (Inl NotConnected, c, w)
      else (Inr (), c, native_call (PeripheralNotify (c_service_uuid c) (c_uuid c)) w))"

definition notification :: "bytes \<Rightarrow> gatt_characteristic \<Rightarrow> world \<Rightarrow> gatt_characteristic \<times> world" where
  "notification data c w =
     setValue (Some data) True c
       (dispatchEvent (OnCharacteristic (c_service_uuid c) (c_uuid c)) ''notify'' w)"

definition stopNotifications ::
  "bindings \<Rightarrow> gatt_characteristic \<Rightarrow> world \<Rightarrow> (error + unit) \<times> gatt_characteristic \<times> world" where
  "stopNotifications b c w =
     (if \<not> connected w then (Inl NotConnected, c, w)
      else (Inr (), c, native_call (PeripheralUnsubscribe (c_service_uuid c) (c_uuid c)) w))"

text \<open>
  \<^verbatim>\<open>getDescriptors(uuid?)\<close> and \<^verbatim>\<open>getDescriptor(uuid)\<close>. The UUID normaliser
  \<^verbatim>\<open>getDescriptorUUID\<close> of \<^verbatim>\<open>common.ts\<close> is a parameter. The descriptor cache is built
  under \<^verbatim>\<open>if (!this._descriptors)\<close>.
\<close>

definition new_descriptor :: "gatt_characteristic \<Rightarrow> string \<Rightarrow> gatt_descriptor" where
  "new_descriptor c descriptorUuid =
     \<lparr> d_service_uuid = c_service_uuid c,
       d_char_uuid = c_uuid c,
       d_uuid = descriptorUuid,
       d_value = None \<rparr>"

definition getDescriptors ::
  "(uuid_arg \<Rightarrow> string) \<Rightarrow> uuid_arg option \<Rightarrow> gatt_characteristic \<Rightarrow> world
     \<Rightarrow> (error + gatt_descriptor list) \<times> gatt_characteristic \<times> world" where
  "getDescriptors getDescriptorUUID uuid c w =
     (if \<not> connected w then (Inl NotConnected, c, w)
      else
        (let c1 = (if \<not> array_truthy (c_descriptors c)
                   then c\<lparr>c_descriptors := map (new_descriptor c) (nc_descriptors (c_characteristic c))\<rparr>
                   else c) in
         case truthy uuid of
           None \<Rightarrow> (Inr (c_descriptors c1), c1, w)
         | Some u \<Rightarrow>
             (let filtered = filter (\<lambda>d. d_uuid d = getDescriptorUUID u) (c_descriptors c1) in
              if length filtered \<noteq> 1 then (Inl DescriptorNotFound, c1, w)
              else (Inr filtered, c1, w))))"

definition getDescriptor ::
  "(uuid_arg \<Rightarrow> string) \<Rightarrow> uuid_arg option \<Rightarrow> gatt_characteristic \<Rightarrow> world
     \<Rightarrow> (error + gatt_descriptor) \<times> gatt_characteristic \<times> world" where
  "getDescriptor getDescriptorUUID uuid c w =
     (if \<not> connected w then (Inl NotConnected, c, w)
      else if truthy uuid = None then (Inl NoDescriptorSpecified, c, w)
      else
        (case getDescriptors getDescriptorUUID uuid c w of
           (Inl e, c1, w1) \<Rightarrow> (Inl e, c1, w1)
         | (Inr descriptors, c1, w1) \<Rightarrow>
             (case descriptors of
                [] \<Rightarrow> (Inl DescriptorNotFound, c1, w1)
              | d # _ \<Rightarrow> (Inr d, c1, w1))))"

section \<open>Descriptor\<close>

definition descriptor_readValue ::
  "bindings \<Rightarrow> gatt_descriptor \<Rightarrow> world \<Rightarrow> (error + bytes) \<times> gatt_descriptor \<times> world" where
  "descriptor_readValue b d w =
     (if \<not> connected w then (Inl NotConnected, d, w)
      else
        (let w1 = native_call (ReadDescriptor (d_service_uuid d) (d_char_uuid d) (d_uuid d)) w in
         case simpleble_peripheral_read_descriptor b (d_service_uuid d) (d_char_uuid d) (d_uuid d) of
           None \<Rightarrow> (Inl DescriptorInvalid, d, w1)
         | Some data \<Rightarrow>
             (case DataView (Uint8Array data) of
                Inl e \<Rightarrow> (Inl e, d, w1)
              | Inr view \<Rightarrow> (Inr view, d\<lparr>d_value := Some view\<rparr>, w1))))"

definition descriptor_writeValue ::
  "bindings \<Rightarrow> buffer_source \<Rightarrow> gatt_descriptor \<Rightarrow> world
     \<Rightarrow> (error + unit) \<times> gatt_descriptor \<times> world" where
  "descriptor_writeValue b v d w =
     (let data = buffer_of v;
          w1 = native_call (WriteDescriptor (d_service_uuid d) (d_char_uuid d) (d_uuid d) data) w in
      if \<not> simpleble_peripheral_write_descriptor b (d_service_uuid d) (d_char_uuid d) (d_uuid d) data
      then (Inl DescriptorInvalid, d, w1)
      else (Inr (), d\<lparr>d_value := Some data\<rparr>, w1))"

section \<open>Service\<close>

text \<open>
  The constructor of a characteristic registers an empty listener on its service and
  dispatches nothing. The constructor of a service dispatches \<^verbatim>\<open>serviceadded\<close> on itself,
  on the device and on the hub. Included services (\<^verbatim>\<open>getIncludedServices\<close>) are left out.
\<close>

definition new_characteristic :: "gatt_service \<Rightarrow> native_characteristic \<Rightarrow> gatt_characteristic" where
  "new_characteristic s char =
     \<lparr> c_service_uuid = s_uuid s,
       c_characteristic = char,
       c_uuid = nc_uuid char,
       c_value = None,
       c_descriptors = [] \<rparr>"

definition new_service :: "native_service \<Rightarrow> world \<Rightarrow> gatt_service \<times> world" where
  "new_service service w =
     (\<lparr> s_service = service, s_uuid = ns_uuid service, s_chars = [] \<rparr>,
      dispatchEvent OnBluetooth ''serviceadded''
        (dispatchEvent OnDevice ''serviceadded''
          (dispatchEvent (OnService (ns_uuid service)) ''serviceadded'' w)))"

text \<open>
  \<^verbatim>\<open>getCharacteristics(uuid?)\<close>: the loop over \<^verbatim>\<open>this._service.characteristics\<close> pushes
  one new characteristic object per native characteristic onto \<^verbatim>\<open>this._chars\<close>, on every
  call. \<^verbatim>\<open>getCharacteristicUUID\<close> of \<^verbatim>\<open>common.ts\<close> is a parameter.
\<close>

definition getCharacteristics ::
  "(uuid_arg \<Rightarrow> string) \<Rightarrow> uuid_arg option \<Rightarrow> gatt_service \<Rightarrow> world
     \<Rightarrow> (error + gatt_characteristic list) \<times> gatt_service \<times> world" where
  "getCharacteristics getCharacteristicUUID uuid s w =
     (if \<not> connected w then (Inl NotConnected, s, w)
      else
        (let s1 = s\<lparr>s_chars := s_chars s @ map (new_characteristic s) (ns_characteristics (s_service s))\<rparr> in
         case truthy uuid of
           None \<Rightarrow> (Inr (s_chars s1), s1, w)
         | Some u \<Rightarrow>
             (let charUuid = getCharacteristicUUID u;
                  filtered = filter (\<lambda>c. c_uuid c = charUuid) (s_chars s1) in
              if length filtered \<noteq> 1 then (Inl CharacteristicNotFound, s1, w)
              else (Inr filtered, s1, w))))"

definition getCharacteristic ::
  "(uuid_arg \<Rightarrow> string) \<Rightarrow> uuid_arg option \<Rightarrow> gatt_service \<Rightarrow> world
     \<Rightarrow> (error + gatt_characteristic) \<times> gatt_service \<times> world" where
  "getCharacteristic getCharacteristicUUID uuid s w =
     (if \<not> connected w then (Inl NotConnected, s, w)
      else if truthy uuid = None then (Inl NoCharacteristicSpecified, s, w)
      else
        (case getCharacteristics getCharacteristicUUID uuid s w of
           (Inl e, s1, w1) \<Rightarrow> (Inl e, s1, w1)
         | (Inr chars, s1, w1) \<Rightarrow>
             (case chars of
                [] \<Rightarrow> (Inl CharacteristicNotFound, s1, w1)
              | c # _ \<Rightarrow> (Inr c, s1, w1))))"

section \<open>GATT server\<close>

text \<open>
  \<^verbatim>\<open>connect()\<close>. The callback handed to
  \<^verbatim>\<open>simpleble_peripheral_set_callback_on_disconnected\<close> is \<open>disconnected_callback\<close>; the
  native layer runs it (\<open>native_disconnected\<close>) only once it is registered.
\<close>

definition connect :: "bindings \<Rightarrow> world \<Rightarrow> (error + unit) \<times> world" where
  "connect b w =
     (if connected w then (Inl AlreadyConnected, w)
      else
        (let w1 = native_call PeripheralConnect w in
         if \<not> simpleble_peripheral_connect b then (Inl ConnectionRefused, w1)
         else
           (let w2 = w1\<lparr>services := []\<rparr>;
                w3 = w2\<lparr>connected := True\<rparr>;
                w4 = dispatchEvent OnDevice ''gattserverdisconnected'' w3;
                w5 = dispatchEvent OnBluetooth ''gattserverdisconnected'' w4;
                w6 = (native_call SetCallbackOnDisconnected w5)\<lparr>on_disconnected := True\<rparr>
            in (Inr (), w6))))"

definition disconnected_callback :: "world \<Rightarrow> world" where
  "disconnected_callback w = w\<lparr>connected := False\<rparr>"

definition native_disconnected :: "world \<Rightarrow> world" where
  "native_disconnected w = (if on_disconnected w then disconnected_callback w else w)"

definition disconnect :: "world \<Rightarrow> world" where
  "disconnect w = (native_call PeripheralDisconnect w)\<lparr>connected := False\<rparr>"

text \<open>
  \<^verbatim>\<open>getPrimaryServices(uuid?)\<close> and \<^verbatim>\<open>getPrimaryService(uuid)\<close>. The enumeration of the
  binding's services stands under \<^verbatim>\<open>if (!this._services)\<close>; \<open>enumerate_services\<close> is the
  body of that branch. \<^verbatim>\<open>getServiceUUID\<close> of \<^verbatim>\<open>common.ts\<close> is a parameter.
\<close>

definition push_service :: "bindings \<Rightarrow> world \<Rightarrow> nat \<Rightarrow> world" where
  "push_service b w i =
     (let w1 = native_call (ServicesGet i) w;
          (service, w2) = new_service (simpleble_peripheral_services_get b i) w1
      in w2\<lparr>services := services w2 @ [service]\<rparr>)"

definition enumerate_services :: "bindings \<Rightarrow> world \<Rightarrow> world" where
  "enumerate_services b w =
     foldl (push_service b) (native_call ServicesCount w)
       [0 ..< simpleble_peripheral_services_count b]"

definition getPrimaryServices ::
  "bindings \<Rightarrow> (uuid_arg \<Rightarrow> string) \<Rightarrow> uuid_arg option \<Rightarrow> world
     \<Rightarrow> (error + gatt_service list) \<times> world" where
  "getPrimaryServices b getServiceUUID uuid w =
     (if \<not> connected w then (Inl NotConnected, w)
      else
        (let w1 = (if \<not> array_truthy (services w) then enumerate_services b w else w) in
         case truthy uuid of
           None \<Rightarrow> (Inr (services w1), w1)
         | Some u \<Rightarrow>
             (let filtered = filter (\<lambda>s. s_uuid s = getServiceUUID u) (services w1) in
              if length filtered \<noteq> 1 then (Inl ServiceNotFound, w1)
              else (Inr filtered, w1))))"

definition getPrimaryService ::
  "bindings \<Rightarrow> (uuid_arg \<Rightarrow> string) \<Rightarrow> uuid_arg option \<Rightarrow> world
     \<Rightarrow> (error + gatt_service) \<times> world" where
  "getPrimaryService b getServiceUUID uuid w =
     (if \<not> connected w then (Inl NotConnected, w)
      else if truthy uuid = None then (Inl NoServiceSpecified, w)
      else
        (case getPrimaryServices b getServiceUUID uuid w of
           (Inl e, w1) \<Rightarrow> (Inl e, w1)
         | (Inr found, w1) \<Rightarrow>
             (case found of
                [] \<Rightarrow> (Inl ServiceNotFound, w1)
              | s # _ \<Rightarrow> (Inr s, w1))))"

section \<open>Bluetooth hub\<close>

text \<open>
  A \<^verbatim>\<open>BluetoothManufacturerData\<close> is a JavaScript \<^verbatim>\<open>Map\<close> from company identifiers to
  views: an association list in insertion order, \<^verbatim>\<open>has\<close> and \<^verbatim>\<open>get\<close> by \<open>map_of\<close>,
  \<^verbatim>\<open>set\<close> by \<open>AList.update\<close>. A peripheral is what the binding answers about one scan
  result: its identifier, its address and its manufacturer-data entries, each possibly
  \<^verbatim>\<open>undefined\<close>.
\<close>

type_synonym manufacturer_data = "(nat \<times> bytes) list"

record peripheral =
  p_identifier :: string
  p_address :: string
  p_manufacturer_data :: "(nat \<times> bytes) option list"

record device_info =
  i_name :: string
  i_address :: string
  i_manufacturerData :: manufacturer_data

record device =
  dev_id :: string
  dev_name :: string
  dev_manufacturerData :: manufacturer_data

text \<open>
  The constructor \<^verbatim>\<open>BluetoothDevice(bindings, peripheral, id, name, bluetooth,
  manufacturerData)\<close>, by the positions of the arguments that set the device's identity.
\<close>

definition BluetoothDevice :: "string \<Rightarrow> string \<Rightarrow> manufacturer_data \<Rightarrow> device" where
  "BluetoothDevice id' name manufacturerData =
     \<lparr> dev_id = id', dev_name = name, dev_manufacturerData = manufacturerData \<rparr>"

record manufacturer_data_filter =
  companyIdentifier :: nat
  dataPrefix :: "buffer_source option"

record scan_filter =
  f_name :: "string option"
  f_namePrefix :: "string option"
  f_manufacturerData :: "manufacturer_data_filter list option"
  f_services :: "uuid_arg list option"

text \<open>
  The options of a request: \<^verbatim>\<open>filters\<close>, the custom predicate \<^verbatim>\<open>filter\<close>,
  \<^verbatim>\<open>timeout\<close>, and for \<^verbatim>\<open>signal\<close> the value of \<^verbatim>\<open>signal.aborted\<close> at the time of the call.
\<close>

record request_options =
  o_filters :: "scan_filter list option"
  o_filter :: "(device_info \<Rightarrow> bool) option"
  o_timeout :: "nat option"
  o_signal :: "bool option"

record hub =
  h_devices :: "device list"

subsection \<open>Filtering\<close>

text \<open>
  The inner loop of \<^verbatim>\<open>checkManufacturerData\<close>: \<^verbatim>\<open>values[i] = view.getUint8(i) === b\<close> for
  every byte \<open>b\<close> of the prefix at index \<open>i\<close>. \<^verbatim>\<open>getUint8\<close> raises once the index is at the
  end of the view. An earlier mismatch does not leave the loop.
\<close>

fun prefix_values :: "bytes \<Rightarrow> bytes \<Rightarrow> error + bool list" where
  "prefix_values view [] = Inr []"
| "prefix_values [] (b # bs) = Inl RangeError"
| "prefix_values (a # view) (b # bs) =
     (case prefix_values view bs of
        Inl e \<Rightarrow> Inl e
      | Inr values \<Rightarrow> Inr ((a = b) # values))"

fun checkManufacturerData ::
  "manufacturer_data \<Rightarrow> manufacturer_data_filter list \<Rightarrow> error + bool" where
  "checkManufacturerData m [] = Inr False"
| "checkManufacturerData m (f # fs) =
     (case map_of m (companyIdentifier f) of
        None \<Rightarrow> checkManufacturerData m fs
      | Some view \<Rightarrow>
          (case dataPrefix f of
             None \<Rightarrow> Inr True
           | Some p \<Rightarrow>
               (case prefix_values view (buffer_of p) of
                  Inl e \<Rightarrow> Inl e
                | Inr values \<Rightarrow>
                    if list_all (\<lambda>val. val) values then Inr True
                    else checkManufacturerData m fs)))"

text \<open>
  One pass of the loop of \<^verbatim>\<open>_filterDevice\<close>: \<open>Inr False\<close> is \<^verbatim>\<open>continue\<close>,
  \<open>Inr True\<close> is \<^verbatim>\<open>return true\<close>. A string is truthy when it is given and not empty;
  an array is truthy when it is given.
\<close>

definition filter_matches :: "scan_filter \<Rightarrow> device_info \<Rightarrow> error + bool" where
  "filter_matches f info =
     (if (case f_name f of None \<Rightarrow> False | Some n \<Rightarrow> n \<noteq> [] \<and> n \<noteq> i_name info)
      then Inr False
      else if (case f_namePrefix f of
                 None \<Rightarrow> False
               | Some p \<Rightarrow>
                   p \<noteq> [] \<and>
                   (i_name info = [] \<or> length p > length (i_name info)
                    \<or> take (length p) (i_name info) \<noteq> p))
      then Inr False
      else
        (case (case f_manufacturerData f of
                 None \<Rightarrow> Inr True
               | Some mfs \<Rightarrow> checkManufacturerData (i_manufacturerData info) mfs) of
           Inl e \<Rightarrow> Inl e
         | Inr False \<Rightarrow> Inr False
         | Inr True \<Rightarrow>
             (case f_services f of
                Some _ \<Rightarrow> Inl ServicesFilterUnsupported
              | None \<Rightarrow> Inr True)))"

fun filterDevice :: "scan_filter list \<Rightarrow> device_info \<Rightarrow> error + bool" where
  "filterDevice [] info = Inr False"
| "filterDevice (f # fs) info =
     (case filter_matches f info of
        Inl e \<Rightarrow> Inl e
      | Inr True \<Rightarrow> Inr True
      | Inr False \<Rightarrow> filterDevice fs info)"

definition createFilter :: "request_options \<Rightarrow> error + (device_info \<Rightarrow> error + bool)" where
  "createFilter options =
     (case o_filter options of
        Some f \<Rightarrow> Inr (\<lambda>info. Inr (f info))
      | None \<Rightarrow>
          (case o_filters options of
             None \<Rightarrow> Inl FilterRequired
           | Some fs \<Rightarrow> Inr (filterDevice fs)))"

subsection \<open>Requests\<close>

text \<open>
  The manufacturer-data map the code builds for a scan result, and the \<^verbatim>\<open>for\<close> loop of
  \<^verbatim>\<open>_request\<close> over the results of the one scan cycle. The scan itself (start, delay,
  stop, result count and handles) is the list of peripherals the loop ranges over.
\<close>

definition manufacturerData_of :: "peripheral \<Rightarrow> manufacturer_data" where
  "manufacturerData_of d =
     foldl (\<lambda>m data. case data of None \<Rightarrow> m | Some (k, v) \<Rightarrow> AList.update k v m)
       [] (p_manufacturer_data d)"

fun request_loop ::
  "(device_info \<Rightarrow> error + bool) \<Rightarrow> bool \<Rightarrow> peripheral list \<Rightarrow> device list
     \<Rightarrow> error + device list" where
  "request_loop filterCb singleDevice [] devices = Inr devices"
| "request_loop filterCb singleDevice (d # ds) devices =
     (let id' = p_identifier d;
          address = p_address d;
          manufacturerData = manufacturerData_of d in
      case filterCb \<lparr> i_name = id', i_address = address, i_manufacturerData = manufacturerData \<rparr> of
        Inl e \<Rightarrow> Inl e
      | Inr found \<Rightarrow>
          if found then
            (let devices' = devices @ [BluetoothDevice address id' manufacturerData] in
             if singleDevice then Inr devices'
             else request_loop filterCb singleDevice ds devices')
          else request_loop filterCb singleDevice ds devices)"

definition request :: "request_options \<Rightarrow> bool \<Rightarrow> peripheral list \<Rightarrow> error + device list" where
  "request options singleDevice results =
     (case createFilter options of
        Inl e \<Rightarrow> Inl e
      | Inr filterCb \<Rightarrow> request_loop filterCb singleDevice results [])"

text \<open>
  Modelled from the spec: \<^verbatim>\<open>abortable\<close> of \<^verbatim>\<open>common.ts\<close>, which is not among the
  sources. The spec: if canceled before completion, the in-flight operation is abandoned
  and a cancellation error surfaces to the caller. \<open>canceled\<close> says whether the signal
  aborts before the request completes.
\<close>

definition abortable :: "error + 'a \<Rightarrow> bool \<Rightarrow> error + 'a" where
  "abortable p canceled = (if canceled then Inl Canceled else p)"

definition requestDevice ::
  "request_options \<Rightarrow> bool \<Rightarrow> peripheral list \<Rightarrow> hub \<Rightarrow> (error + device) \<times> hub" where
  "requestDevice options canceled results h =
     (let p = request options True results in
      case (case o_signal options of None \<Rightarrow> p | Some _ \<Rightarrow> abortable p canceled) of
        Inl e \<Rightarrow> (Inl e, h)
      | Inr [] \<Rightarrow> (Inl NoDevicesFound, h)
      | Inr (d # _) \<Rightarrow> (Inr d, h\<lparr>h_devices := h_devices h @ [d]\<rparr>))"

definition requestDevices ::
  "request_options \<Rightarrow> bool \<Rightarrow> peripheral list \<Rightarrow> hub \<Rightarrow> (error + device list) \<times> hub" where
  "requestDevices options canceled results h =
     (let p = request options True results in
      case (case o_signal options of None \<Rightarrow> p | Some _ \<Rightarrow> abortable p canceled) of
        Inl e \<Rightarrow> (Inl e, h)
      | Inr [] \<Rightarrow> (Inl NoDevicesFound, h)
      | Inr (d # ds) \<Rightarrow> (Inr (d # ds), h\<lparr>h_devices := h_devices h @ (d # ds)\<rparr>))"

subsection \<open>Continuous scan\<close>

text \<open>
  The generator \<^verbatim>\<open>scan\<close>. One scan cycle is what happens around one pass of the
  \<^verbatim>\<open>while (!done)\<close> loop: whether the abort event of the signal fires during the pass, and
  the results the binding reports after \<^verbatim>\<open>scan_stop\<close>. \<open>abort_listener\<close> is the body of
  the listener the code registers for that event, as a function of the flag \<^verbatim>\<open>done\<close>.
\<close>

record scan_cycle =
  abort_fires :: bool
  results :: "peripheral list"

definition abort_listener :: "bool \<Rightarrow> bool" where
  "abort_listener done = False"

text \<open>
  The \<^verbatim>\<open>for\<close> loop over the results of one cycle, on the list \<^verbatim>\<open>ids\<close> and the devices
  yielded so far. An exception of the filter ends the generator; what was yielded stays
  yielded.
\<close>

fun scan_results ::
  "(device_info \<Rightarrow> error + bool) \<Rightarrow> peripheral list \<Rightarrow> string list \<Rightarrow> device list
     \<Rightarrow> error option \<times> string list \<times> device list" where
  "scan_results filterCb [] ids yielded = (None, ids, yielded)"
| "scan_results filterCb (d # ds) ids yielded =
     (let id' = p_identifier d in
      if id' \<in> set ids then scan_results filterCb ds ids yielded
      else
        (let address = p_address d;
             manufacturerData = manufacturerData_of d in
         case filterCb \<lparr> i_name = id', i_address = address, i_manufacturerData = manufacturerData \<rparr> of
           Inl e \<Rightarrow> (Some e, ids, yielded)
         | Inr found \<Rightarrow>
             if found then
               scan_results filterCb ds (ids @ [id'])
                 (yielded @ [BluetoothDevice address id' manufacturerData])
             else scan_results filterCb ds ids yielded))"

text \<open>
  How the generator stands after the cycles it was given: it returned (the loop was
  left), it threw, or it is still in the loop and about to start the next cycle.
\<close>

datatype scan_end = Returned | Threw error | Running

fun scan_while ::
  "(device_info \<Rightarrow> error + bool) \<Rightarrow> scan_cycle list \<Rightarrow> bool \<Rightarrow> string list \<Rightarrow> device list
     \<Rightarrow> device list \<times> scan_end" where
  "scan_while filterCb cycles True ids yielded = (yielded, Returned)"
| "scan_while filterCb [] False ids yielded = (yielded, Running)"
| "scan_while filterCb (c # cs) False ids yielded =
     (let done = (if abort_fires c then abort_listener False else False) in
      case scan_results filterCb (results c) ids yielded of
        (Some e, ids', yielded') \<Rightarrow> (yielded', Threw e)
      | (None, ids', yielded') \<Rightarrow> scan_while filterCb cs done ids' yielded')"

definition scan :: "request_options \<Rightarrow> scan_cycle list \<Rightarrow> device list \<times> scan_end" where
  "scan options cycles =
     (if o_filters options = None \<and> o_filter options = None then ([], Threw FilterRequired)
      else if o_signal options = Some True then ([], Threw Canceled)
      else
        (case createFilter options of
           Inl e \<Rightarrow> ([], Threw e)
         | Inr filterCb \<Rightarrow> scan_while filterCb cycles False [] []))"

section \<open>Concrete inputs\<close>

text \<open>
  A freshly constructed GATT server, a binding that answers every call with success and
  reports one service, an object for one of that service's characteristics, and a UUID
  normaliser for arguments that are canonical strings already.
\<close>

definition initial_world :: world where
  "initial_world =
     \<lparr> connected = False, services = [], on_disconnected = False, calls = [], events = [] \<rparr>"

definition device_information :: native_service where
  "device_information =
     \<lparr> ns_uuid = ''0000180a-0000-1000-8000-00805f9b34fb'',
       ns_characteristics =
         [\<lparr> nc_uuid = ''00002a24-0000-1000-8000-00805f9b34fb'', nc_descriptors = [] \<rparr>,
          \<lparr> nc_uuid = ''00002a25-0000-1000-8000-00805f9b34fb'', nc_descriptors = [] \<rparr>] \<rparr>"

definition stub :: bindings where
  "stub =
     \<lparr> simpleble_peripheral_connect = True,
       simpleble_peripheral_services_count = 1,
       simpleble_peripheral_services_get = (\<lambda>i. device_information),
       simpleble_peripheral_read = (\<lambda>service char. Some [0x42, 0x42, 0x43]),
       simpleble_peripheral_write_command = (\<lambda>service char data. True),
       simpleble_peripheral_write_request = (\<lambda>service char data. True),
       simpleble_peripheral_read_descriptor = (\<lambda>service char descriptor. Some [0x01, 0x00]),
       simpleble_peripheral_write_descriptor = (\<lambda>service char descriptor data. True) \<rparr>"

definition as_given :: "uuid_arg \<Rightarrow> string" where
  "as_given u = (case u of UuidString s \<Rightarrow> s | UuidNumber n \<Rightarrow> [])"

definition model_number :: gatt_characteristic where
  "model_number =
     \<lparr> c_service_uuid = ''0000180a-0000-1000-8000-00805f9b34fb'',
       c_characteristic =
         \<lparr> nc_uuid = ''00002a24-0000-1000-8000-00805f9b34fb'', nc_descriptors = [] \<rparr>,
       c_uuid = ''00002a24-0000-1000-8000-00805f9b34fb'',
       c_value = None,
       c_descriptors = [] \<rparr>"

definition client_configuration :: gatt_descriptor where
  "client_configuration =
     \<lparr> d_service_uuid = ''0000180a-0000-1000-8000-00805f9b34fb'',
       d_char_uuid = ''00002a24-0000-1000-8000-00805f9b34fb'',
       d_uuid = ''00002902-0000-1000-8000-00805f9b34fb'',
       d_value = None \<rparr>"

text \<open>
  The server right after a successful \<^verbatim>\<open>connect()\<close>; the object of the binding's
  service, as its constructor leaves it; and a connected server whose cache holds that
  object.
\<close>

definition connected_world :: world where
  "connected_world = snd (connect stub initial_world)"

definition device_information_service :: gatt_service where
  "device_information_service =
     \<lparr> s_service = device_information, s_uuid = ns_uuid device_information, s_chars = [] \<rparr>"

definition cached_world :: world where
  "cached_world = connected_world\<lparr>services := [device_information_service]\<rparr>"

text \<open>
  Scan results: two peripherals; the first of them under another identifier (the same
  address advertising a changed name); another peripheral, at an address of its own,
  with the identifier of the first; and a request for every device whose name starts with
  \<^verbatim>\<open>Widget\<close>.
\<close>

definition widget_a :: peripheral where
  "widget_a =
     \<lparr> p_identifier = ''Widget-A'', p_address = ''AA:00:00:00:00:01'',
       p_manufacturer_data = [] \<rparr>"

definition widget_b :: peripheral where
  "widget_b =
     \<lparr> p_identifier = ''Widget-B'', p_address = ''AA:00:00:00:00:02'',
       p_manufacturer_data = [] \<rparr>"

definition widget_a_renamed :: peripheral where
  "widget_a_renamed =
     \<lparr> p_identifier = ''Widget-A2'', p_address = ''AA:00:00:00:00:01'',
       p_manufacturer_data = [] \<rparr>"

definition widget_a_twin :: peripheral where
  "widget_a_twin =
     \<lparr> p_identifier = ''Widget-A'', p_address = ''AA:00:00:00:00:03'',
       p_manufacturer_data = [] \<rparr>"

definition widget_options :: request_options where
  "widget_options =
     \<lparr> o_filters = Some [\<lparr> f_name = None, f_namePrefix = Some ''Widget'',
                            f_manufacturerData = None, f_services = None \<rparr>],
       o_filter = None, o_timeout = None, o_signal = None \<rparr>"

section \<open>Properties\<close>

subsection \<open>The properties getter\<close>

text \<open>
  C10. For every characteristic the \<^verbatim>\<open>properties\<close> getter returns the same flag set,
  whatever the native characteristic is: read, write, writeWithoutResponse, notify,
  indicate and reliableWrite are true; broadcast, authenticatedSignedWrites and
  writableAuxiliaries are false.
\<close>

theorem properties_constant:
  "properties c = properties c' \<and>
   read (properties c) \<and> write' (properties c) \<and> writeWithoutResponse (properties c) \<and>
   notify (properties c) \<and> indicate (properties c) \<and> reliableWrite (properties c) \<and>
   \<not> broadcast (properties c) \<and> \<not> authenticatedSignedWrites (properties c) \<and>
   \<not> writableAuxiliaries (properties c)"
  by (simp add: properties_def)

subsection \<open>Connecting\<close>

text \<open>
  C3. \<^verbatim>\<open>connect()\<close> fails when the server is connected already. When the native connect
  call reports failure it fails with the connection-refused error and \<^verbatim>\<open>connected\<close> stays
  false (only the native call is logged). When the native call succeeds, it empties the
  service cache, sets \<^verbatim>\<open>connected\<close>, registers the native disconnection callback, whose
  run sets \<^verbatim>\<open>connected\<close> back to false, and dispatches a \<^verbatim>\<open>gattserverdisconnected\<close> event on
  the device and on the hub.
\<close>

theorem connect_behaviour:
  "(connected w \<longrightarrow> connect b w = (Inl AlreadyConnected, w)) \<and>
   (\<not> connected w \<and> \<not> simpleble_peripheral_connect b \<longrightarrow>
      fst (connect b w) = Inl ConnectionRefused \<and>
      \<not> connected (snd (connect b w)) \<and>
      snd (connect b w) = w\<lparr>calls := calls w @ [PeripheralConnect]\<rparr>) \<and>
   (\<not> connected w \<and> simpleble_peripheral_connect b \<longrightarrow>
      fst (connect b w) = Inr () \<and>
      services (snd (connect b w)) = [] \<and>
      connected (snd (connect b w)) \<and>
      on_disconnected (snd (connect b w)) \<and>
      \<not> connected (native_disconnected (snd (connect b w))) \<and>
      events (snd (connect b w)) =
        events w @ [(OnDevice, ''gattserverdisconnected''), (OnBluetooth, ''gattserverdisconnected'')] \<and>
      calls (snd (connect b w)) = calls w @ [PeripheralConnect, SetCallbackOnDisconnected])"
  by (simp add: connect_def native_call_def dispatchEvent_def native_disconnected_def
      disconnected_callback_def Let_def)

theorem connect_behaviour_witness:
  "connect stub (initial_world\<lparr>connected := True\<rparr>)
     = (Inl AlreadyConnected, initial_world\<lparr>connected := True\<rparr>) \<and>
   fst (connect (stub\<lparr>simpleble_peripheral_connect := False\<rparr>) initial_world)
     = Inl ConnectionRefused \<and>
   \<not> connected (snd (connect (stub\<lparr>simpleble_peripheral_connect := False\<rparr>) initial_world)) \<and>
   fst (connect stub initial_world) = Inr () \<and>
   connected (snd (connect stub initial_world)) \<and>
   \<not> connected (native_disconnected (snd (connect stub initial_world))) \<and>
   events (snd (connect stub initial_world)) =
     [(OnDevice, ''gattserverdisconnected''), (OnBluetooth, ''gattserverdisconnected'')]"
  using connect_behaviour [of "initial_world\<lparr>connected := True\<rparr>" stub]
    connect_behaviour [of initial_world "stub\<lparr>simpleble_peripheral_connect := False\<rparr>"]
    connect_behaviour [of initial_world stub]
  by (simp add: initial_world_def stub_def)

subsection \<open>The connection guard\<close>

text \<open>
  C1, as amended. While the device's GATT server is not connected, the descriptor's
  \<^verbatim>\<open>readValue\<close> and the characteristic's \<^verbatim>\<open>startNotifications\<close>, \<^verbatim>\<open>stopNotifications\<close>,
  \<^verbatim>\<open>getDescriptors\<close> and \<^verbatim>\<open>getDescriptor\<close> fail with the not-connected error and leave
  everything as it was: no call reaches the binding. The write operations
  (\<^verbatim>\<open>writeValue\<close>, \<^verbatim>\<open>writeValueWithResponse\<close>, \<^verbatim>\<open>writeValueWithoutResponse\<close> of a
  characteristic, \<^verbatim>\<open>writeValue\<close> of a descriptor) have no such guard: they make their one
  native call all the same, and fail exactly when that call reports failure. Nothing is
  said of the characteristic's \<^verbatim>\<open>readValue\<close>.
\<close>

theorem not_connected_guard:
  "\<not> connected w \<Longrightarrow>
     descriptor_readValue b d w = (Inl NotConnected, d, w) \<and>
     startNotifications b c w = (Inl NotConnected, c, w) \<and>
     stopNotifications b c w = (Inl NotConnected, c, w) \<and>
     getDescriptors getDescriptorUUID uuid c w = (Inl NotConnected, c, w) \<and>
     getDescriptor getDescriptorUUID uuid c w = (Inl NotConnected, c, w) \<and>
     calls (snd (snd (writeValue b v c w)))
       = calls w @ [WriteCommand (c_service_uuid c) (c_uuid c) (buffer_of v)] \<and>
     calls (snd (snd (writeValueWithResponse b v c w)))
       = calls w @ [WriteCommand (c_service_uuid c) (c_uuid c) (buffer_of v)] \<and>
     calls (snd (snd (writeValueWithoutResponse b v c w)))
       = calls w @ [WriteRequest (c_service_uuid c) (c_uuid c) (buffer_of v)] \<and>
     calls (snd (snd (descriptor_writeValue b v d w)))
       = calls w @ [WriteDescriptor (d_service_uuid d) (d_char_uuid d) (d_uuid d) (buffer_of v)] \<and>
     fst (writeValue b v c w)
       = (if simpleble_peripheral_write_command b (c_service_uuid c) (c_uuid c) (buffer_of v)
          then Inr () else Inl WriteCommandFailed) \<and>
     fst (writeValueWithResponse b v c w)
       = (if simpleble_peripheral_write_command b (c_service_uuid c) (c_uuid c) (buffer_of v)
          then Inr () else Inl WriteCommandFailed) \<and>
     fst (writeValueWithoutResponse b v c w)
       = (if simpleble_peripheral_write_request b (c_service_uuid c) (c_uuid c) (buffer_of v)
          then Inr () else Inl WriteRequestFailed) \<and>
     fst (descriptor_writeValue b v d w)
       = (if simpleble_peripheral_write_descriptor b (d_service_uuid d) (d_char_uuid d)
               (d_uuid d) (buffer_of v)
          then Inr () else Inl DescriptorInvalid)"
  by (simp add: descriptor_readValue_def startNotifications_def stopNotifications_def
      getDescriptors_def getDescriptor_def writeValue_def writeValueWithResponse_def
      writeValueWithoutResponse_def descriptor_writeValue_def setValue_def native_call_def
      Let_def)

theorem not_connected_guard_witness:
  "\<not> connected initial_world \<and>
   descriptor_readValue stub client_configuration initial_world
     = (Inl NotConnected, client_configuration, initial_world) \<and>
   startNotifications stub model_number initial_world
     = (Inl NotConnected, model_number, initial_world) \<and>
   stopNotifications stub model_number initial_world
     = (Inl NotConnected, model_number, initial_world) \<and>
   getDescriptors as_given None model_number initial_world
     = (Inl NotConnected, model_number, initial_world) \<and>
   calls (snd (snd (descriptor_writeValue stub (ArrayBuffer [1, 0]) client_configuration
      initial_world)))
     = [WriteDescriptor ''0000180a-0000-1000-8000-00805f9b34fb''
          ''00002a24-0000-1000-8000-00805f9b34fb'' ''00002902-0000-1000-8000-00805f9b34fb''
          [1, 0]]"
proof -
  have h: "\<not> connected initial_world"
    by (simp add: initial_world_def)
  show ?thesis
    using h not_connected_guard [OF h, of stub client_configuration model_number as_given None
        "ArrayBuffer [1, 0]"]
    by (simp add: initial_world_def client_configuration_def)
qed

text \<open>
  On a server that was never connected, \<^verbatim>\<open>writeValue\<close> of a characteristic does not fail
  with the not-connected error: it hands the bytes to the binding and, the binding
  reporting success, resolves.
\<close>

theorem write_while_disconnected_counterexample:
  "\<not> connected initial_world \<and>
   fst (writeValue stub (ArrayBuffer [0x68, 0x69]) model_number initial_world)
     \<noteq> Inl NotConnected \<and>
   calls (snd (snd (writeValue stub (ArrayBuffer [0x68, 0x69]) model_number initial_world)))
     \<noteq> calls initial_world \<and>
   writeValue stub (ArrayBuffer [0x68, 0x69]) model_number initial_world
     = (Inr (),
        model_number\<lparr>c_value := Some [0x68, 0x69]\<rparr>,
        initial_world\<lparr>calls :=
          [WriteCommand ''0000180a-0000-1000-8000-00805f9b34fb''
             ''00002a24-0000-1000-8000-00805f9b34fb'' [0x68, 0x69]]\<rparr>)"
  by (simp add: writeValue_def writeValueWithResponse_def setValue_def native_call_def
      initial_world_def stub_def model_number_def Let_def)

subsection \<open>Values and change events\<close>

text \<open>
  What holds of the writes and of notifications, for every binding, value and state:
  every successful \<^verbatim>\<open>writeValue\<close>, \<^verbatim>\<open>writeValueWithResponse\<close> and
  \<^verbatim>\<open>writeValueWithoutResponse\<close> stores the bytes it handed to the binding as the
  characteristic's value and dispatches no event on any object; every native notification
  stores the bytes delivered and dispatches, after a \<^verbatim>\<open>notify\<close> event on the
  characteristic, exactly one \<^verbatim>\<open>characteristicvaluechanged\<close> event on the characteristic,
  on its service, on the device and on the hub.
\<close>

lemma write_and_notification_values:
  "(fst (writeValue b v c w) = Inr () \<longrightarrow>
      c_value (fst (snd (writeValue b v c w))) = Some (buffer_of v) \<and>
      calls (snd (snd (writeValue b v c w)))
        = calls w @ [WriteCommand (c_service_uuid c) (c_uuid c) (buffer_of v)] \<and>
      events (snd (snd (writeValue b v c w))) = events w) \<and>
   (fst (writeValueWithResponse b v c w) = Inr () \<longrightarrow>
      c_value (fst (snd (writeValueWithResponse b v c w))) = Some (buffer_of v) \<and>
      calls (snd (snd (writeValueWithResponse b v c w)))
        = calls w @ [WriteCommand (c_service_uuid c) (c_uuid c) (buffer_of v)] \<and>
      events (snd (snd (writeValueWithResponse b v c w))) = events w) \<and>
   (fst (writeValueWithoutResponse b v c w) = Inr () \<longrightarrow>
      c_value (fst (snd (writeValueWithoutResponse b v c w))) = Some (buffer_of v) \<and>
      calls (snd (snd (writeValueWithoutResponse b v c w)))
        = calls w @ [WriteRequest (c_service_uuid c) (c_uuid c) (buffer_of v)] \<and>
      events (snd (snd (writeValueWithoutResponse b v c w))) = events w) \<and>
   c_value (fst (notification data c w)) = Some data \<and>
   events (snd (notification data c w))
     = events w @
       [(OnCharacteristic (c_service_uuid c) (c_uuid c), ''notify''),
        (OnCharacteristic (c_service_uuid c) (c_uuid c), ''characteristicvaluechanged''),
        (OnService (c_service_uuid c), ''characteristicvaluechanged''),
        (OnDevice, ''characteristicvaluechanged''),
        (OnBluetooth, ''characteristicvaluechanged'')]"
  by (auto simp add: writeValue_def writeValueWithResponse_def writeValueWithoutResponse_def
      notification_def setValue_def native_call_def dispatchEvent_def Let_def
      split: if_splits)

text \<open>
  \<^verbatim>\<open>readValue\<close> of a characteristic never resolves: whatever the binding answers, it
  fails, with the characteristic and the event log as they were and the one native read
  logged. The same holds of the descriptor's \<^verbatim>\<open>readValue\<close>.
\<close>

lemma readValue_never_resolves:
  "fst (readValue b c w) \<noteq> Inr view \<and>
   snd (readValue b c w)
     = (c, w\<lparr>calls := calls w @ [PeripheralRead (c_service_uuid c) (c_uuid c)]\<rparr>)"
  by (simp add: readValue_def Uint8Array_def native_call_def Let_def split: option.splits)

lemma descriptor_readValue_never_resolves:
  "fst (descriptor_readValue b d w) \<noteq> Inr view \<and> fst (snd (descriptor_readValue b d w)) = d"
  by (simp add: descriptor_readValue_def Uint8Array_def Let_def split: option.splits)

text \<open>
  C5, evaluated. The server is connected and the binding answers the read of the
  characteristic with the three bytes \<open>0x42, 0x42, 0x43\<close>. \<^verbatim>\<open>readValue\<close> does not
  resolve: \<^verbatim>\<open>new DataView(buffer)\<close> raises a type error on the \<^verbatim>\<open>Uint8Array\<close> before
  \<^verbatim>\<open>_setValue\<close> is reached. The characteristic's value stays unset and no
  \<^verbatim>\<open>characteristicvaluechanged\<close> event is dispatched; only the native read is logged.
\<close>

theorem readValue_evaluated:
  "connected cached_world \<and>
   simpleble_peripheral_read stub (c_service_uuid model_number) (c_uuid model_number)
     = Some [0x42, 0x42, 0x43] \<and>
   c_value model_number = None \<and>
   readValue stub model_number cached_world
     = (Inl DataViewTypeError,
        model_number,
        cached_world\<lparr>calls := calls cached_world @
          [PeripheralRead ''0000180a-0000-1000-8000-00805f9b34fb''
             ''00002a24-0000-1000-8000-00805f9b34fb'']\<rparr>)"
  by (simp add: readValue_def Uint8Array_def native_call_def stub_def model_number_def
      cached_world_def connected_world_def connect_def initial_world_def dispatchEvent_def
      Let_def)

subsection \<open>Service discovery\<close>

text \<open>
  What the two discovery methods do to their caches, for every binding and argument:
  \<^verbatim>\<open>getPrimaryServices\<close> leaves the server as it is, the binding's call log included, and
  \<^verbatim>\<open>getCharacteristics\<close> on a connected device appends one object per native
  characteristic to the service's list.
\<close>

lemma getPrimaryServices_keeps_world:
  "snd (getPrimaryServices b getServiceUUID uuid w) = w"
  by (simp add: getPrimaryServices_def array_truthy_def Let_def split: option.splits)

lemma getCharacteristics_appends:
  "connected w \<Longrightarrow>
     s_chars (fst (snd (getCharacteristics getCharacteristicUUID uuid s w)))
       = s_chars s @ map (new_characteristic s) (ns_characteristics (s_service s))"
  by (simp add: getCharacteristics_def Let_def split: option.splits)

text \<open>
  C2, evaluated. The binding reports one service with two characteristics. On the server
  right after \<^verbatim>\<open>connect()\<close>, the first \<^verbatim>\<open>getPrimaryServices()\<close> returns the empty list
  and the call log still holds the two calls of \<^verbatim>\<open>connect()\<close> only: the binding's
  services are not enumerated. On that service's object, the first
  \<^verbatim>\<open>getCharacteristics()\<close> leaves two characteristics in the list and the second call
  leaves four.
\<close>

theorem cache_population_evaluated:
  "simpleble_peripheral_services_count stub = 1 \<and>
   getPrimaryServices stub as_given None connected_world = (Inr [], connected_world) \<and>
   calls connected_world = [PeripheralConnect, SetCallbackOnDisconnected] \<and>
   length (ns_characteristics (s_service device_information_service)) = 2 \<and>
   length (s_chars (fst (snd (getCharacteristics as_given None device_information_service
      connected_world)))) = 2 \<and>
   length (s_chars (fst (snd (getCharacteristics as_given None
      (fst (snd (getCharacteristics as_given None device_information_service connected_world)))
      connected_world)))) = 4"
  by (simp add: getPrimaryServices_def getCharacteristics_def array_truthy_def
      connected_world_def connect_def stub_def initial_world_def native_call_def
      dispatchEvent_def device_information_service_def device_information_def Let_def)

text \<open>
  C4, as amended. On a connected server, \<^verbatim>\<open>getPrimaryServices\<close> without a UUID returns
  the whole cache. With a UUID it returns the cached services whose UUID equals the
  normalised argument only when there is exactly one of them, as a one-element list;
  with no match, or with more than one, it fails with the service-not-found error, as
  the singular \<^verbatim>\<open>getPrimaryService\<close> does.
\<close>

theorem getPrimaryServices_exactly_one:
  "connected w \<Longrightarrow>
     (truthy uuid = None \<longrightarrow>
        getPrimaryServices b getServiceUUID uuid w = (Inr (services w), w)) \<and>
     (\<forall>u. truthy uuid = Some u \<longrightarrow>
        (\<forall>s. filter (\<lambda>s. s_uuid s = getServiceUUID u) (services w) = [s] \<longrightarrow>
           getPrimaryServices b getServiceUUID uuid w = (Inr [s], w) \<and>
           getPrimaryService b getServiceUUID uuid w = (Inr s, w)) \<and>
        (length (filter (\<lambda>s. s_uuid s = getServiceUUID u) (services w)) \<noteq> 1 \<longrightarrow>
           getPrimaryServices b getServiceUUID uuid w = (Inl ServiceNotFound, w) \<and>
           getPrimaryService b getServiceUUID uuid w = (Inl ServiceNotFound, w)))"
  by (auto simp add: getPrimaryServices_def getPrimaryService_def array_truthy_def Let_def)

theorem getPrimaryServices_exactly_one_witness:
  "connected cached_world \<and>
   getPrimaryServices stub as_given None cached_world
     = (Inr [device_information_service], cached_world) \<and>
   getPrimaryServices stub as_given (Some (UuidString ''0000180a-0000-1000-8000-00805f9b34fb''))
     cached_world = (Inr [device_information_service], cached_world) \<and>
   getPrimaryService stub as_given (Some (UuidString ''0000180a-0000-1000-8000-00805f9b34fb''))
     cached_world = (Inr device_information_service, cached_world) \<and>
   getPrimaryServices stub as_given (Some (UuidString ''0000180f-0000-1000-8000-00805f9b34fb''))
     cached_world = (Inl ServiceNotFound, cached_world)"
proof -
  have c: "connected cached_world"
    by (simp add: cached_world_def connected_world_def connect_def stub_def initial_world_def
        native_call_def dispatchEvent_def Let_def)
  have s: "services cached_world = [device_information_service]"
    by (simp add: cached_world_def)
  show ?thesis
    using c
      getPrimaryServices_exactly_one [OF c, of None stub as_given]
      getPrimaryServices_exactly_one [OF c,
        of "Some (UuidString ''0000180a-0000-1000-8000-00805f9b34fb'')" stub as_given]
      getPrimaryServices_exactly_one [OF c,
        of "Some (UuidString ''0000180f-0000-1000-8000-00805f9b34fb'')" stub as_given]
    by (simp add: s as_given_def device_information_service_def device_information_def)
qed

text \<open>
  Right after \<^verbatim>\<open>connect()\<close> no cached service has the requested UUID; the plural
  \<^verbatim>\<open>getPrimaryServices\<close> does not return the empty subset but fails.
\<close>

theorem getPrimaryServices_no_match_counterexample:
  "connected connected_world \<and>
   filter (\<lambda>s. s_uuid s = as_given (UuidString ''0000180a-0000-1000-8000-00805f9b34fb''))
     (services connected_world) = [] \<and>
   getPrimaryServices stub as_given (Some (UuidString ''0000180a-0000-1000-8000-00805f9b34fb''))
     connected_world = (Inl ServiceNotFound, connected_world)"
  by (simp add: getPrimaryServices_def array_truthy_def connected_world_def connect_def stub_def
      initial_world_def native_call_def dispatchEvent_def Let_def)

subsection \<open>Requests\<close>

text \<open>
  C6, evaluated. One scan cycle reports two peripherals whose names both start with
  \<^verbatim>\<open>Widget\<close>: the request loop run for all matches returns both, and
  \<^verbatim>\<open>requestDevices\<close> returns the first alone and appends that one device to the
  registry.
\<close>

theorem requestDevices_evaluated:
  "request widget_options False [widget_a, widget_b]
     = Inr [BluetoothDevice ''AA:00:00:00:00:01'' ''Widget-A'' [],
            BluetoothDevice ''AA:00:00:00:00:02'' ''Widget-B'' []] \<and>
   requestDevices widget_options False [widget_a, widget_b] \<lparr> h_devices = [] \<rparr>
     = (Inr [BluetoothDevice ''AA:00:00:00:00:01'' ''Widget-A'' []],
        \<lparr> h_devices = [BluetoothDevice ''AA:00:00:00:00:01'' ''Widget-A'' []] \<rparr>)"
  by (simp add: request_def requestDevices_def createFilter_def widget_options_def widget_a_def
      widget_b_def filter_matches_def manufacturerData_of_def Let_def)

subsection \<open>Continuous scan\<close>

text \<open>
  The loops of \<^verbatim>\<open>scan\<close> keep the list \<^verbatim>\<open>ids\<close> equal to the names of the devices yielded
  so far, and free of duplicates.
\<close>

lemma scan_results_ids:
  "map dev_name yielded = ids \<Longrightarrow> distinct ids \<Longrightarrow>
   scan_results filterCb ds ids yielded = (e, ids', yielded') \<Longrightarrow>
   map dev_name yielded' = ids' \<and> distinct ids'"
proof (induction filterCb ds ids yielded rule: scan_results.induct)
  case (1 filterCb ids yielded)
  then show ?case by simp
next
  case (2 filterCb d ds ids yielded)
  then show ?case
    by (auto simp add: Let_def BluetoothDevice_def split: if_splits sum.splits)
qed

lemma scan_while_ids:
  "map dev_name yielded = ids \<Longrightarrow> distinct ids \<Longrightarrow>
   distinct (map dev_name (fst (scan_while filterCb cycles stop ids yielded)))"
proof (induction filterCb cycles stop ids yielded rule: scan_while.induct)
  case (1 filterCb cycles ids yielded)
  then show ?case by simp
next
  case (2 filterCb ids yielded)
  then show ?case by simp
next
  case (3 filterCb c cs ids yielded)
  obtain e ids' yielded'
    where r: "scan_results filterCb (results c) ids yielded = (e, ids', yielded')"
    by (cases "scan_results filterCb (results c) ids yielded") auto
  from scan_results_ids [OF "3.prems"(1) "3.prems"(2) r]
  have inv: "map dev_name yielded' = ids'" "distinct ids'" by auto
  show ?case
  proof (cases e)
    case None
    with r inv "3.IH" show ?thesis by (simp add: Let_def)
  next
    case (Some err)
    with r inv show ?thesis by simp
  qed
qed

text \<open>
  So, whatever the options and the scan cycles, no two devices yielded by \<^verbatim>\<open>scan\<close> have
  the same \<^verbatim>\<open>name\<close>: the loops skip a scan result by the string the binding's
  \<^verbatim>\<open>simpleble_peripheral_identifier\<close> answers, which the constructor call passes as the
  device's name.
\<close>

lemma scan_distinct_identifiers:
  "distinct (map dev_name (fst (scan options cycles)))"
  by (simp add: scan_def scan_while_ids split: sum.splits)

text \<open>
  C7, evaluated. The \<^verbatim>\<open>id\<close> of a yielded device is the peripheral's address. A
  peripheral that is reported under one identifier in the first cycle and under another
  in the second is yielded twice, as two devices with the same \<^verbatim>\<open>id\<close>. And of two
  peripherals with different addresses and the same identifier, reported in one cycle,
  the second is skipped: a device whose \<^verbatim>\<open>id\<close> was never yielded is not yielded.
\<close>

theorem scan_dedupe_key_evaluated:
  "map dev_id (fst (scan widget_options
      [\<lparr> abort_fires = False, results = [widget_a] \<rparr>,
       \<lparr> abort_fires = False, results = [widget_a_renamed] \<rparr>]))
     = [''AA:00:00:00:00:01'', ''AA:00:00:00:00:01''] \<and>
   map dev_id (fst (scan widget_options
      [\<lparr> abort_fires = False, results = [widget_a, widget_a_twin] \<rparr>]))
     = [''AA:00:00:00:00:01'']"
  by (simp add: scan_def createFilter_def widget_options_def widget_a_def widget_a_renamed_def
      widget_a_twin_def filter_matches_def manufacturerData_of_def BluetoothDevice_def
      abort_listener_def Let_def)

text \<open>
  The loop of \<^verbatim>\<open>scan\<close> is never left through its condition: after any number of cycles,
  with or without an abort event, the generator threw or is about to start the next
  cycle.
\<close>

lemma scan_while_never_returns:
  "snd (scan_while filterCb cycles False ids yielded) \<noteq> Returned"
proof (induction cycles arbitrary: ids yielded)
  case Nil
  then show ?case by simp
next
  case (Cons c cs)
  then show ?case
    by (simp add: Let_def abort_listener_def split: prod.splits option.splits)
qed

lemma scan_never_returns: "snd (scan options cycles) \<noteq> Returned"
  by (simp add: scan_def scan_while_never_returns split: sum.splits)

text \<open>
  C8, evaluated. The abort event fires during the first cycle. The loop starts a second
  cycle all the same, yields the device found in it, and is still running afterwards.
\<close>

theorem scan_after_abort_evaluated:
  "scan widget_options
      [\<lparr> abort_fires = True, results = [widget_a] \<rparr>,
       \<lparr> abort_fires = False, results = [widget_b] \<rparr>]
     = ([BluetoothDevice ''AA:00:00:00:00:01'' ''Widget-A'' [],
         BluetoothDevice ''AA:00:00:00:00:02'' ''Widget-B'' []], Running)"
  by (simp add: scan_def createFilter_def widget_options_def widget_a_def widget_b_def
      filter_matches_def manufacturerData_of_def abort_listener_def Let_def)

subsection \<open>Manufacturer data\<close>

text \<open>
  The comparison loop raises exactly when the prefix is longer than the view; when it
  does not, its values are all true exactly when the prefix is an initial segment of the
  view. So for filters none of whose prefixes is longer than the candidate's data for
  that company, \<^verbatim>\<open>checkManufacturerData\<close> returns whether some filter entry's company is
  present with, if a prefix is given, the data starting with the bytes of the prefix's
  buffer.
\<close>

lemma prefix_values_RangeError:
  "(prefix_values view p = Inl e) \<longleftrightarrow> (e = RangeError \<and> length view < length p)"
  by (induction view p rule: prefix_values.induct) (auto split: sum.splits)

lemma prefix_values_all:
  "prefix_values view p = Inr values \<Longrightarrow>
     list_all (\<lambda>val. val) values \<longleftrightarrow> take (length p) view = p"
  by (induction view p arbitrary: "values" rule: prefix_values.induct) (auto split: sum.splits)

lemma checkManufacturerData_in_range:
  "(\<forall>f \<in> set fs. \<forall>view p.
       map_of m (companyIdentifier f) = Some view \<and> dataPrefix f = Some p
         \<longrightarrow> length (buffer_of p) \<le> length view) \<Longrightarrow>
   checkManufacturerData m fs =
     Inr (\<exists>f \<in> set fs.
            case map_of m (companyIdentifier f) of
              None \<Rightarrow> False
            | Some view \<Rightarrow>
                (case dataPrefix f of
                   None \<Rightarrow> True
                 | Some p \<Rightarrow> take (length (buffer_of p)) view = buffer_of p))"
proof (induction fs)
  case Nil
  then show ?case by simp
next
  case (Cons f fs)
  show ?case
  proof (cases "map_of m (companyIdentifier f)")
    case None
    with Cons show ?thesis by simp
  next
    case (Some view)
    show ?thesis
    proof (cases "dataPrefix f")
      case None
      with Some show ?thesis by simp
    next
      case (Some p)
      with \<open>map_of m (companyIdentifier f) = Some view\<close> Cons.prems
      have len: "length (buffer_of p) \<le> length view" by simp
      then obtain vs where vs: "prefix_values view (buffer_of p) = Inr vs"
        using prefix_values_RangeError [of view "buffer_of p"]
        by (cases "prefix_values view (buffer_of p)") auto
      from prefix_values_all [OF vs] Cons vs Some \<open>map_of m (companyIdentifier f) = Some view\<close>
      show ?thesis by auto
    qed
  qed
qed

text \<open>
  C9, evaluated. The candidate's data for company \<open>0x004C\<close> is the one byte \<open>0x02\<close>. For
  the filter \<open>{companyIdentifier: 0x004C, dataPrefix: [0x02, 0x15]}\<close> the check raises a
  range error instead of answering that there is no match; and it raises the same error
  when a second filter entry, the company identifier alone, does match the candidate.
\<close>

theorem checkManufacturerData_overlong_prefix:
  "checkManufacturerData [(0x004C, [0x02])]
     [\<lparr> companyIdentifier = 0x004C, dataPrefix = Some (ArrayBuffer [0x02, 0x15]) \<rparr>]
     = Inl RangeError \<and>
   checkManufacturerData [(0x004C, [0x02])]
     [\<lparr> companyIdentifier = 0x004C, dataPrefix = Some (ArrayBuffer [0x02, 0x15]) \<rparr>,
      \<lparr> companyIdentifier = 0x004C, dataPrefix = None \<rparr>]
     = Inl RangeError"
  by simp

end
